theory Spec2Isabelle
  imports Complex_Main "HOL-Library.AList"
begin

section \<open>JavaScript values\<close>

text \<open>
  The admin front end is JavaScript (Ember). The values that flow through the code
  under study are the JSON data of a user resource, plus \<open>undefined\<close>:
  attributes are declared with an untyped \<open>@attr\<close>, so they hold whatever the
  server sent. A JavaScript string is modelled by a HOL \<open>string\<close> (code units
  up to 0xFF).
\<close>

datatype jsval =
    JUndefined
  | JNull
  | JBool bool
  | JStr string
  | JObj "(string \<times> jsval) list"

text \<open>ToBoolean, as \<open>!x\<close>, \<open>x && y\<close> and \<open>if (x)\<close> apply it.\<close>

fun truthy :: "jsval \<Rightarrow> bool" where
  "truthy JUndefined = False"
| "truthy JNull = False"
| "truthy (JBool b) = b"
| "truthy (JStr s) = (s \<noteq> [])"
| "truthy (JObj kvs) = True"

text \<open>ToString on these values, as a template literal \<open>`${x}`\<close> applies it.\<close>

fun js_toString :: "jsval \<Rightarrow> string" where
  "js_toString JUndefined = ''undefined''"
| "js_toString JNull = ''null''"
| "js_toString (JBool b) = (if b then ''true'' else ''false'')"
| "js_toString (JStr s) = s"
| "js_toString (JObj kvs) = ''[object Object]''"

text \<open>
  Optional chaining \<open>v?.k\<close> for a property name \<open>k\<close> that strings and booleans do
  not have (\<open>reason\<close>, \<open>until\<close>): \<open>undefined\<close> on \<open>null\<close> and \<open>undefined\<close>,
  the property of an object, \<open>undefined\<close> when the object has no such property.
\<close>

fun opt_chain :: "jsval \<Rightarrow> string \<Rightarrow> jsval" where
  "opt_chain (JObj kvs) k = (case map_of kvs k of None \<Rightarrow> JUndefined | Some v \<Rightarrow> v)"
| "opt_chain v k = JUndefined"

subsection \<open>Numbers and the conversion of a string to a number\<close>

text \<open>
  A JavaScript number is \<open>NaN\<close>, an infinity or a finite value. A finite value is
  kept as the exact mathematical value of the literal (the rounding to binary64 and the
  sign of zero are not modelled; no branch of the code under study depends on them).
\<close>

datatype jsnum = NaN | Finite rat | PosInfinity | NegInfinity

definition isNaN :: "jsnum \<Rightarrow> bool" where
  "isNaN n = (n = NaN)"

fun negate :: "jsnum \<Rightarrow> jsnum" where
  "negate NaN = NaN"
| "negate (Finite q) = Finite (- q)"
| "negate PosInfinity = NegInfinity"
| "negate NegInfinity = PosInfinity"

text \<open>
  StringToNumber of ECMA-262, which \<open>new Number(s)\<close> applies to a string: white space
  and line terminators are trimmed at both ends; the empty rest is 0; otherwise the rest
  must be a StrNumericLiteral (a signed decimal literal with optional fraction and
  exponent, \<open>Infinity\<close>, or an unsigned binary, octal or hexadecimal integer), and
  anything else is \<open>NaN\<close>.
\<close>

definition isStrWhiteSpaceChar :: "char \<Rightarrow> bool" where
  "isStrWhiteSpaceChar c =
     (c = CHR 0x09 \<or> c = CHR 0x0A \<or> c = CHR 0x0B \<or> c = CHR 0x0C \<or> c = CHR 0x0D
      \<or> c = CHR 0x20 \<or> c = CHR 0xA0)"

definition trimString :: "string \<Rightarrow> string" where
  "trimString s = rev (dropWhile isStrWhiteSpaceChar (rev (dropWhile isStrWhiteSpaceChar s)))"

definition digitOf :: "nat \<Rightarrow> char \<Rightarrow> nat option" where
  "digitOf radix c =
     (let n = (of_char c :: nat);
          d = (if 48 \<le> n \<and> n \<le> 57 then Some (n - 48)
               else if 97 \<le> n \<and> n \<le> 102 then Some (n - 87)
               else if 65 \<le> n \<and> n \<le> 70 then Some (n - 55)
               else None)
      in case d of None \<Rightarrow> None | Some v \<Rightarrow> if v < radix then Some v else None)"

fun digitsValue :: "nat \<Rightarrow> nat \<Rightarrow> string \<Rightarrow> nat option" where
  "digitsValue radix acc [] = Some acc"
| "digitsValue radix acc (c # cs) =
     (case digitOf radix c of
        None \<Rightarrow> None
      | Some d \<Rightarrow> digitsValue radix (acc * radix + d) cs)"

text \<open>One or more digits of the radix: their value, or None.\<close>

definition parseDigits :: "nat \<Rightarrow> string \<Rightarrow> nat option" where
  "parseDigits radix s = (if s = [] then None else digitsValue radix 0 s)"

definition parseSignedInteger :: "string \<Rightarrow> int option" where
  "parseSignedInteger s =
     (case s of
        [] \<Rightarrow> None
      | c # r \<Rightarrow>
          if c = CHR ''+'' then map_option int (parseDigits 10 r)
          else if c = CHR ''-'' then map_option (\<lambda>n. - int n) (parseDigits 10 r)
          else map_option int (parseDigits 10 s))"

text \<open>
  The part before the exponent: \<open>DecimalDigits . DecimalDigits\<^sub>o\<^sub>p\<^sub>t\<close>,
  \<open>. DecimalDigits\<close> or \<open>DecimalDigits\<close>.
\<close>

definition parseMantissa :: "string \<Rightarrow> rat option" where
  "parseMantissa m =
     (let ip = takeWhile (\<lambda>c. c \<noteq> CHR ''.'') m;
          rest = dropWhile (\<lambda>c. c \<noteq> CHR ''.'') m
      in case rest of
           [] \<Rightarrow> map_option of_nat (parseDigits 10 ip)
         | dot # fp \<Rightarrow>
             if ip = [] then map_option (\<lambda>f. of_nat f / 10 ^ length fp) (parseDigits 10 fp)
             else (case parseDigits 10 ip of
                     None \<Rightarrow> None
                   | Some i \<Rightarrow>
                       if fp = [] then Some (of_nat i)
                       else map_option (\<lambda>f. of_nat i + of_nat f / 10 ^ length fp)
                              (parseDigits 10 fp)))"

definition scale10 :: "rat \<Rightarrow> int \<Rightarrow> rat" where
  "scale10 q e = (if 0 \<le> e then q * 10 ^ nat e else q / 10 ^ nat (- e))"

definition isExponentIndicator :: "char \<Rightarrow> bool" where
  "isExponentIndicator c = (c = CHR ''e'' \<or> c = CHR ''E'')"

definition StrUnsignedDecimalLiteral :: "string \<Rightarrow> jsnum" where
  "StrUnsignedDecimalLiteral s =
     (if s = ''Infinity'' then PosInfinity
      else
        let m = takeWhile (\<lambda>c. \<not> isExponentIndicator c) s;
            r = dropWhile (\<lambda>c. \<not> isExponentIndicator c) s;
            ex = (case r of [] \<Rightarrow> Some 0 | ind # ds \<Rightarrow> parseSignedInteger ds)
        in case parseMantissa m of
             None \<Rightarrow> NaN
           | Some q \<Rightarrow> (case ex of None \<Rightarrow> NaN | Some e \<Rightarrow> Finite (scale10 q e)))"

definition StrDecimalLiteral :: "string \<Rightarrow> jsnum" where
  "StrDecimalLiteral s =
     (case s of
        [] \<Rightarrow> NaN
      | c # r \<Rightarrow>
          if c = CHR ''+'' then StrUnsignedDecimalLiteral r
          else if c = CHR ''-'' then negate (StrUnsignedDecimalLiteral r)
          else StrUnsignedDecimalLiteral s)"

definition NonDecimalIntegerLiteral :: "string \<Rightarrow> nat option" where
  "NonDecimalIntegerLiteral s =
     (case s of
        z # x # ds \<Rightarrow>
          if z \<noteq> CHR ''0'' then None
          else if x = CHR ''x'' \<or> x = CHR ''X'' then parseDigits 16 ds
          else if x = CHR ''o'' \<or> x = CHR ''O'' then parseDigits 8 ds
          else if x = CHR ''b'' \<or> x = CHR ''B'' then parseDigits 2 ds
          else None
      | _ \<Rightarrow> None)"

definition StringToNumber :: "string \<Rightarrow> jsnum" where
  "StringToNumber s =
     (let t = trimString s
      in if t = [] then Finite 0
         else case NonDecimalIntegerLiteral t of
                Some n \<Rightarrow> Finite (of_nat n)
              | None \<Rightarrow> StrDecimalLiteral t)"

text \<open>
  The decimal numeral of a natural number: the text of a whole number of days as it is
  typed into the days field.
\<close>

fun decimal :: "nat \<Rightarrow> string" where
  "decimal n =
     (if n < 10 then [char_of (48 + n)]
      else decimal (n div 10) @ [char_of (48 + n mod 10)])"

declare decimal.simps [simp del]

subsection \<open>Dates\<close>

text \<open>
  A \<open>Date\<close> is its time value, milliseconds since the epoch, or the invalid date.
  The current time (\<open>new Date()\<close>, \<open>Date.now()\<close>) is a parameter \<open>now\<close> of
  every function that reads the clock.
\<close>

datatype jsdate = InvalidDate | DateMs int

text \<open>
  \<open>isFuture\<close> of the date-fns library: the argument is converted to a date by the
  library's \<open>toDate\<close> (a parameter here: how it reads a date depends on the
  library's version), and the result is whether its time value is greater than the
  current time. An invalid date is not in the future.
\<close>

definition isFuture :: "(jsval \<Rightarrow> jsdate) \<Rightarrow> int \<Rightarrow> jsval \<Rightarrow> bool" where
  "isFuture toDate now d = (case toDate d of InvalidDate \<Rightarrow> False | DateMs t \<Rightarrow> now < t)"

section \<open>The store of user records\<close>

text \<open>
  The Ember Data store caches user records by id; a record maps the names of its
  attributes to their values. A controller or a route holds a record by reference, so a
  record is read through the store.
\<close>

type_synonym attrs = "string \<rightharpoonup> jsval"
type_synonym store = "string \<rightharpoonup> attrs"

text \<open>Reading \<open>record.name\<close>: \<open>undefined\<close> when the attribute was never set.\<close>

definition get_attr :: "store \<Rightarrow> string \<Rightarrow> string \<Rightarrow> jsval" where
  "get_attr st i k =
     (case st i of
        None \<Rightarrow> JUndefined
      | Some a \<Rightarrow> (case a k of None \<Rightarrow> JUndefined | Some v \<Rightarrow> v))"

section \<open>The profile controller: lock state\<close>

text \<open>
  \<open>app/controllers/admin/user/profile.js\<close>. The controller's tracked fields are
  \<open>days\<close> and \<open>reason\<close> (text of two form fields); \<open>model_user\<close> is the id of
  the record that \<open>this.model.user\<close> refers to.
\<close>

record profile_controller =
  days :: string
  reason :: string
  model_user :: string

definition lockReason :: "store \<Rightarrow> profile_controller \<Rightarrow> jsval" where
  "lockReason st c = opt_chain (get_attr st (model_user c) ''lock'') ''reason''"

definition lockedUntil :: "store \<Rightarrow> profile_controller \<Rightarrow> jsval" where
  "lockedUntil st c = opt_chain (get_attr st (model_user c) ''lock'') ''until''"

definition isCurrentlyLocked ::
  "(jsval \<Rightarrow> jsdate) \<Rightarrow> int \<Rightarrow> store \<Rightarrow> profile_controller \<Rightarrow> bool" where
  "isCurrentlyLocked toDate now st c =
     (if \<not> truthy (lockReason st c) then False
      else
        let until = lockedUntil st c
        in if \<not> truthy until then True
           else isFuture toDate now until)"

text \<open>\<open>a && b\<close> is \<open>a\<close> itself when \<open>a\<close> is falsy, and \<open>b\<close> otherwise.\<close>

definition wasPreviouslyLocked ::
  "(jsval \<Rightarrow> jsdate) \<Rightarrow> int \<Rightarrow> store \<Rightarrow> profile_controller \<Rightarrow> jsval" where
  "wasPreviouslyLocked toDate now st c =
     (let r = lockReason st c
      in if truthy r then JBool (\<not> isCurrentlyLocked toDate now st c) else r)"

text \<open>\<open>reset()\<close>: the defaults of the two form fields.\<close>

definition reset :: "profile_controller \<Rightarrow> profile_controller" where
  "reset c = c\<lparr>days := ''7'', reason := ''Please contact help@crates.io.''\<rparr>"

subsection \<open>The payload of a lock request\<close>

record lock_payload =
  payload_reason :: string
  payload_until :: "jsdate option"

text \<open>
  \<open>asPayload()\<close>. \<open>new Number(days)\<close> converts the text of the days field and
  wraps the number in an object, whose value \<open>isNaN\<close> and \<open>addDays\<close> read.
  \<open>addDays\<close> is the date-fns function, a parameter: it gets the current date and
  the converted number. \<open>None\<close> is \<open>null\<close>.
\<close>

definition asPayload ::
  "(int \<Rightarrow> jsnum \<Rightarrow> jsdate) \<Rightarrow> int \<Rightarrow> profile_controller \<Rightarrow> lock_payload" where
  "asPayload addDays now c =
     (let d = StringToNumber (days c);
          until = (if \<not> isNaN d then Some (addDays now d) else None)
      in \<lparr>payload_reason = reason c, payload_until = until\<rparr>)"

section \<open>Services: network, router, notifications, error reporting\<close>

text \<open>
  Errors are values. \<open>HttpError\<close> is the error of the application's \<open>ajax\<close>
  helper and carries \<open>response?.status\<close>; \<open>NotFoundError\<close> is Ember Data's adapter
  error; \<open>ReferenceError\<close> is what reading an undeclared identifier throws;
  \<open>OtherError\<close> is anything else that can be thrown.
\<close>

datatype js_error =
    HttpError "nat option"
  | NotFoundError
  | ReferenceError string
  | OtherError string

datatype http_verb = GET | PUT | DELETE

text \<open>The text that \<open>JSON.stringify\<close> makes of a payload.\<close>

datatype json_text = JSON_stringify lock_payload

record request =
  req_url :: string
  req_verb :: http_verb
  req_body :: "json_text option"
  req_headers :: "(string \<times> string) list"

text \<open>
  A user representation as the server returns it and as \<open>store.normalize\<close> reads it:
  the id and the attributes it carries.
\<close>

record user_resource =
  res_id :: string
  res_attrs :: "(string \<times> jsval) list"

text \<open>A call of the \<open>apiAction\<close> helper on a record.\<close>

record api_call =
  api_record :: string
  api_verb :: http_verb
  api_path :: "string option"
  api_data :: "jsval option"

datatype transition = Transition string

text \<open>
  The options object of a redirect to the error route. \<open>None\<close> is a key the object
  does not have.
\<close>

record catch_all =
  ca_transition :: transition
  ca_error :: "js_error option"
  ca_title :: string
  ca_tryAgain :: "bool option"
  ca_loginNeeded :: "bool option"

text \<open>What the code does to the world outside it, in the order it does it.\<close>

datatype event =
    Fetch request
  | StoreQuery string "(string \<times> jsval) list"
  | ApiAction api_call
  | ReplaceWith string catch_all
  | BaseGuardRedirect transition
  | NotifySuccess string
  | NotifyError string
  | CaptureException js_error
  | ConsoleError js_error

record session =
  authenticated :: bool
  isAdmin :: bool
  savedTransition :: "transition option"

text \<open>
  The state the services hold: the store, the session, the events so far (oldest
  first), and whether the router's active transition has been replaced by a redirect.
\<close>

record app =
  app_store :: store
  app_session :: session
  app_events :: "event list"
  app_redirected :: bool

definition emit :: "event \<Rightarrow> app \<Rightarrow> app" where
  "emit e a = a\<lparr>app_events := app_events a @ [e]\<rparr>"

text \<open>
  \<open>router.replaceWith(route, options)\<close>: the redirect is issued, and the transition
  that was under way is aborted in its favour (Ember's router).
\<close>

definition replaceWith :: "string \<Rightarrow> catch_all \<Rightarrow> app \<Rightarrow> app" where
  "replaceWith route opts a = (emit (ReplaceWith route opts) a)\<lparr>app_redirected := True\<rparr>"

text \<open>
  \<open>store.push(store.normalize('user', r))\<close> and \<open>store.pushPayload({user: r})\<close> of
  Ember Data: the attributes that the representation carries replace the cached ones, the
  record's other attributes stay, and a record that is not cached yet is created.
\<close>

definition store_push :: "user_resource \<Rightarrow> store \<Rightarrow> store" where
  "store_push r st =
     st(res_id r \<mapsto>
        (case st (res_id r) of
           None \<Rightarrow> map_of (res_attrs r)
         | Some old \<Rightarrow> old ++ map_of (res_attrs r)))"

definition push_user :: "user_resource \<Rightarrow> app \<Rightarrow> app" where
  "push_user r a = a\<lparr>app_store := store_push r (app_store a)\<rparr>"

section \<open>The profile controller: lock and unlock\<close>

text \<open>
  The network is a parameter \<open>ajax\<close>: the outcome of the awaited request, \<open>Inr\<close> the
  user representation of the response, \<open>Inl\<close> the error that the \<open>await\<close> throws.
  A task returns its own outcome (\<open>Inr JUndefined\<close>: it completes and returns
  nothing), the controller and the services' state.

  The \<open>try\<close> block of a task holds more than the request: after the \<open>await\<close> come
  \<open>notifications.success(...)\<close>, \<open>this.reset()\<close> and
  \<open>store.push(store.normalize('user', user))\<close>, and a throw of any of them is caught
  by the same \<open>catch\<close>. The calls of the two services may throw: \<open>notify_throws\<close> is
  the error that \<open>notifications.success\<close> throws, if it does (nothing is shown then),
  and \<open>push_throws\<close> the error that the normalize and push of a user representation
  throws, if it does (nothing is merged then). \<open>reset()\<close> is two assignments to the
  controller's own fields and does not throw.
\<close>

record task_faults =
  notify_throws :: "js_error option"
  push_throws :: "user_resource \<Rightarrow> js_error option"

definition lock_url :: "store \<Rightarrow> profile_controller \<Rightarrow> string" where
  "lock_url st c = ''/api/v1/users/'' @ js_toString (get_attr st (model_user c) ''login'') @ ''/lock''"

definition lock_request ::
  "(int \<Rightarrow> jsnum \<Rightarrow> jsdate) \<Rightarrow> int \<Rightarrow> store \<Rightarrow> profile_controller \<Rightarrow> request" where
  "lock_request addDays now st c =
     \<lparr>req_url = lock_url st c,
      req_verb = PUT,
      req_body = Some (JSON_stringify (asPayload addDays now c)),
      req_headers = [(''Content-Type'', ''application/json'')]\<rparr>"

definition unlock_request :: "store \<Rightarrow> profile_controller \<Rightarrow> request" where
  "unlock_request st c =
     \<lparr>req_url = lock_url st c, req_verb = DELETE, req_body = None, req_headers = []\<rparr>"

text \<open>
  The \<open>catch\<close> block of a task, entered with the error \<open>e\<close> at the controller state
  \<open>c\<close> that the \<open>try\<close> block had reached: the error notification, the report to
  Sentry, the console log. The task then completes.
\<close>

definition task_catch ::
  "string \<Rightarrow> js_error \<Rightarrow> profile_controller \<Rightarrow> app \<Rightarrow>
   (js_error + jsval) \<times> profile_controller \<times> app" where
  "task_catch message e c a =
     (let a1 = emit (NotifyError message) a;
          a2 = emit (CaptureException e) a1;
          a3 = emit (ConsoleError e) a2
      in (Inr JUndefined, c, a3))"

definition lockTask ::
  "task_faults \<Rightarrow> (request \<Rightarrow> js_error + user_resource) \<Rightarrow> (int \<Rightarrow> jsnum \<Rightarrow> jsdate) \<Rightarrow> int \<Rightarrow>
   profile_controller \<Rightarrow> app \<Rightarrow> (js_error + jsval) \<times> profile_controller \<times> app" where
  "lockTask faults ajax addDays now c a =
     (let req = lock_request addDays now (app_store a) c;
          a1 = emit (Fetch req) a
      in case ajax req of
           Inl e \<Rightarrow> task_catch ''An error occurred while locking the account.'' e c a1
         | Inr user \<Rightarrow>
             (case notify_throws faults of
                Some e \<Rightarrow> task_catch ''An error occurred while locking the account.'' e c a1
              | None \<Rightarrow>
                  (let a2 = emit (NotifySuccess ''User account locked'') a1;
                       c1 = reset c
                   in case push_throws faults user of
                        Some e \<Rightarrow>
                          task_catch ''An error occurred while locking the account.'' e c1 a2
                      | None \<Rightarrow> (Inr JUndefined, c1, push_user user a2))))"

definition unlockTask ::
  "task_faults \<Rightarrow> (request \<Rightarrow> js_error + user_resource) \<Rightarrow>
   profile_controller \<Rightarrow> app \<Rightarrow> (js_error + jsval) \<times> profile_controller \<times> app" where
  "unlockTask faults ajax c a =
     (let req = unlock_request (app_store a) c;
          a1 = emit (Fetch req) a
      in case ajax req of
           Inl e \<Rightarrow> task_catch ''An error occurred while unlocking the account.'' e c a1
         | Inr user \<Rightarrow>
             (case notify_throws faults of
                Some e \<Rightarrow> task_catch ''An error occurred while unlocking the account.'' e c a1
              | None \<Rightarrow>
                  (let a2 = emit (NotifySuccess ''User account unlocked'') a1;
                       c1 = reset c
                   in case push_throws faults user of
                        Some e \<Rightarrow>
                          task_catch ''An error occurred while unlocking the account.'' e c1 a2
                      | None \<Rightarrow> (Inr JUndefined, c1, push_user user a2))))"

section \<open>Routes\<close>

text \<open>
  What a route's \<open>model\<close> hook resolves with: nothing (\<open>undefined\<close>),
  \<open>{ user }\<close> (the record, by id) or \<open>{ crates, user }\<close>. A hook's outcome is
  \<open>Inr\<close> of that, or \<open>Inl\<close> of the error its promise is rejected with.
\<close>

datatype model_value =
    NoModel
  | UserModel string
  | CratesModel jsval string

subsection \<open>The user route\<close>

text \<open>
  \<open>AdminUserRoute.model(params, transition)\<close>. \<open>params\<close> are the properties of the
  route's parameter object; \<open>const { user_id } = params\<close> reads one of them.
\<close>

definition param :: "(string \<times> jsval) list \<Rightarrow> string \<Rightarrow> jsval" where
  "param params k = (case map_of params k of None \<Rightarrow> JUndefined | Some v \<Rightarrow> v)"

definition admin_user_request :: "jsval \<Rightarrow> request" where
  "admin_user_request user_id =
     \<lparr>req_url = ''/api/v1/users/'' @ js_toString user_id @ ''/admin'',
      req_verb = GET, req_body = None, req_headers = []\<rparr>"

definition AdminUserRoute_model ::
  "(request \<Rightarrow> js_error + user_resource) \<Rightarrow> (string \<times> jsval) list \<Rightarrow> transition \<Rightarrow>
   app \<Rightarrow> (js_error + model_value) \<times> app" where
  "AdminUserRoute_model ajax params transition a =
     (let user_id = param params ''user_id'';
          req = admin_user_request user_id;
          a1 = emit (Fetch req) a
      in case ajax req of
           Inr response \<Rightarrow> (Inr (UserModel (res_id response)), push_user response a1)
         | Inl error \<Rightarrow>
             if error = HttpError (Some 404) then
               (Inr NoModel,
                replaceWith ''catch-all''
                  \<lparr>ca_transition = transition,
                   ca_error = Some error,
                   ca_title = js_toString user_id @ '': User not found'',
                   ca_tryAgain = None,
                   ca_loginNeeded = None\<rparr> a1)
             else
               (Inr NoModel,
                replaceWith ''catch-all''
                  \<lparr>ca_transition = transition,
                   ca_error = Some error,
                   ca_title = js_toString user_id @ '': Failed to load user data'',
                   ca_tryAgain = Some True,
                   ca_loginNeeded = None\<rparr> a1))"

subsection \<open>The route of a user's crates\<close>

text \<open>
  Reading an identifier that no enclosing scope declares: the property of that name of
  the global object, and a \<open>ReferenceError\<close> when the global object has none.
\<close>

definition global_identifier :: "(string \<rightharpoonup> jsval) \<Rightarrow> string \<Rightarrow> js_error + jsval" where
  "global_identifier globals x =
     (case globals x of None \<Rightarrow> Inl (ReferenceError x) | Some v \<Rightarrow> Inr v)"

text \<open>The query parameters after the two assignments in the \<open>try\<close> block.\<close>

definition crates_query :: "(string \<times> jsval) list \<Rightarrow> string \<Rightarrow> (string \<times> jsval) list" where
  "crates_query params user =
     AList.update ''include_yanked'' (JStr ''yes'') (AList.update ''user_id'' (JStr user) params)"

text \<open>
  \<open>AdminUserCratesRoute.model(params, transition)\<close>. \<open>user\<close> is the id of the record
  that \<open>this.modelFor('admin.user')\<close> holds, and \<open>query\<close> the outcome of the awaited
  \<open>store.query('crate', params)\<close>.

  The function declares \<open>params\<close>, \<open>transition\<close>, \<open>user\<close>, \<open>crates\<close>, \<open>error\<close>
  and \<open>title\<close>, and it sets the property \<open>params.user_id\<close>; it declares no variable
  \<open>user_id\<close>, and the module declares and imports none. So the \<open>user_id\<close> of the two
  template literals in the \<open>catch\<close> block is not a local: it is read from the global
  object \<open>globals\<close>. When that read throws, it throws inside the handler: the hook's
  promise is rejected and the call of \<open>router.replaceWith\<close> after it is not reached.
\<close>

definition AdminUserCratesRoute_model ::
  "(string \<rightharpoonup> jsval) \<Rightarrow> ((string \<times> jsval) list \<Rightarrow> js_error + jsval) \<Rightarrow>
   (string \<times> jsval) list \<Rightarrow> transition \<Rightarrow> string \<Rightarrow> app \<Rightarrow> (js_error + model_value) \<times> app" where
  "AdminUserCratesRoute_model globals query params transition user a =
     (let params2 = crates_query params user;
          a1 = emit (StoreQuery ''crate'' params2) a
      in case query params2 of
           Inr crates \<Rightarrow> (Inr (CratesModel crates user), a1)
         | Inl error \<Rightarrow>
             if error = NotFoundError then
               (case global_identifier globals ''user_id'' of
                  Inl thrown \<Rightarrow> (Inl thrown, a1)
                | Inr user_id \<Rightarrow>
                    (Inr NoModel,
                     replaceWith ''catch-all''
                       \<lparr>ca_transition = transition,
                        ca_error = Some error,
                        ca_title = js_toString user_id @ '': User not found'',
                        ca_tryAgain = None,
                        ca_loginNeeded = None\<rparr> a1))
             else
               (case global_identifier globals ''user_id'' of
                  Inl thrown \<Rightarrow> (Inl thrown, a1)
                | Inr user_id \<Rightarrow>
                    (Inr NoModel,
                     replaceWith ''catch-all''
                       \<lparr>ca_transition = transition,
                        ca_error = Some error,
                        ca_title = js_toString user_id @ '': Failed to load user data'',
                        ca_tryAgain = Some True,
                        ca_loginNeeded = None\<rparr> a1)))"

subsection \<open>The admin guard\<close>

text \<open>
  Modelled from the spec: the base authentication guard (\<open>./-authenticated-route\<close>,
  which is not among the sources). Section 4.1: "If unauthenticated, defer to the base
  authentication guard's own redirect"; an authenticated session passes it untouched.
\<close>

definition AuthenticatedRoute_beforeModel :: "transition \<Rightarrow> app \<Rightarrow> app" where
  "AuthenticatedRoute_beforeModel transition a =
     (if authenticated (app_session a) then a
      else (emit (BaseGuardRedirect transition) a)\<lparr>app_redirected := True\<rparr>)"

text \<open>\<open>AdminRoute.beforeModel(transition)\<close>.\<close>

definition AdminRoute_beforeModel :: "transition \<Rightarrow> app \<Rightarrow> app" where
  "AdminRoute_beforeModel transition a =
     (let a1 = AuthenticatedRoute_beforeModel transition a
      in if \<not> isAdmin (app_session a1) then
           (let a2 = a1\<lparr>app_session := (app_session a1)\<lparr>savedTransition := Some transition\<rparr>\<rparr>
            in replaceWith ''catch-all''
                 \<lparr>ca_transition = transition,
                  ca_error = None,
                  ca_title = ''This page requires authentication'',
                  ca_tryAgain = None,
                  ca_loginNeeded = Some True\<rparr> a2)
         else a1)"

text \<open>
  Modelled from the spec: the order of a navigation into an admin-scoped route, which is
  the framework's. Section 2: "Control flow: router guard \<rightarrow> user route (network
  fetch)"; section 4.1: the guard runs "before entering any admin-scoped route" and its
  redirect is "a hard stop per navigation attempt". So the route's own hook (any function
  of the state; the data fetches are there) runs after the guard, and only when the guard
  has not redirected.
\<close>

definition enter_admin_route :: "transition \<Rightarrow> (app \<Rightarrow> 'r \<times> app) \<Rightarrow> app \<Rightarrow> 'r option \<times> app" where
  "enter_admin_route transition hook a =
     (let a1 = AdminRoute_beforeModel transition (a\<lparr>app_redirected := False\<rparr>)
      in if app_redirected a1 then (None, a1)
         else (case hook a1 of (r, a2) \<Rightarrow> (Some r, a2)))"

section \<open>The user entity\<close>

text \<open>
  \<open>app/models/user.js\<close>. \<open>this_id\<close> is \<open>this.id\<close>; \<open>apiAction\<close> is the outcome of
  the awaited call of the helper: \<open>Inr\<close> the server's output, \<open>Inl\<close> the error thrown.
  A method's outcome is \<open>Inr\<close> of what it returns or \<open>Inl\<close> of the error it is rejected
  with.
\<close>

definition changeEmail ::
  "(api_call \<Rightarrow> js_error + jsval) \<Rightarrow> string \<Rightarrow> jsval \<Rightarrow> app \<Rightarrow> (js_error + jsval) \<times> app" where
  "changeEmail apiAction this_id email a =
     (let call = \<lparr>api_record = this_id, api_verb = PUT, api_path = None,
                  api_data = Some (JObj [(''user'', JObj [(''email'', email)])])\<rparr>;
          a1 = emit (ApiAction call) a
      in case apiAction call of
           Inl e \<Rightarrow> (Inl e, a1)
         | Inr out \<Rightarrow>
             (Inr JUndefined,
              push_user
                \<lparr>res_id = this_id,
                 res_attrs = [(''email'', email),
                              (''email_verified'', JBool False),
                              (''email_verification_sent'', JBool True)]\<rparr> a1))"

definition updatePublishNotifications ::
  "(api_call \<Rightarrow> js_error + jsval) \<Rightarrow> string \<Rightarrow> jsval \<Rightarrow> app \<Rightarrow> (js_error + jsval) \<times> app" where
  "updatePublishNotifications apiAction this_id enabled a =
     (let call = \<lparr>api_record = this_id, api_verb = PUT, api_path = None,
                  api_data = Some (JObj [(''user'', JObj [(''publish_notifications'', enabled)])])\<rparr>;
          a1 = emit (ApiAction call) a
      in case apiAction call of
           Inl e \<Rightarrow> (Inl e, a1)
         | Inr out \<Rightarrow>
             (Inr JUndefined,
              push_user
                \<lparr>res_id = this_id, res_attrs = [(''publish_notifications'', enabled)]\<rparr> a1))"

definition resendVerificationEmail ::
  "(api_call \<Rightarrow> js_error + jsval) \<Rightarrow> string \<Rightarrow> app \<Rightarrow> (js_error + jsval) \<times> app" where
  "resendVerificationEmail apiAction this_id a =
     (let call = \<lparr>api_record = this_id, api_verb = PUT, api_path = Some ''resend'',
                  api_data = None\<rparr>;
          a1 = emit (ApiAction call) a
      in (apiAction call, a1))"

section \<open>Example data\<close>

text \<open>
  Concrete inputs for the examples below: a store with one locked user, a controller
  on that user, a non-admin session, a \<open>toDate\<close> that reads one timestamp, and an
  \<open>addDays\<close> of whole days of 86 400 000 ms (invalid for a number that is not finite).
\<close>

definition example_toDate :: "jsval \<Rightarrow> jsdate" where
  "example_toDate v =
     (if v = JStr ''2030-01-01T00:00:00.000Z'' then DateMs 1893456000000 else InvalidDate)"

definition example_addDays :: "int \<Rightarrow> jsnum \<Rightarrow> jsdate" where
  "example_addDays t n =
     (case n of Finite q \<Rightarrow> DateMs (t + \<lfloor>q\<rfloor> * 86400000) | _ \<Rightarrow> InvalidDate)"

definition example_lock :: jsval where
  "example_lock = JObj [(''reason'', JStr ''spam''), (''until'', JStr ''2030-01-01T00:00:00.000Z'')]"

definition example_store :: store where
  "example_store =
     [''42'' \<mapsto> [''login'' \<mapsto> JStr ''ghost'',
                 ''email'' \<mapsto> JStr ''ghost@example.com'',
                 ''email_verified'' \<mapsto> JBool True,
                 ''lock'' \<mapsto> example_lock]]"

definition example_controller :: profile_controller where
  "example_controller = \<lparr>days = ''3'', reason = ''spam'', model_user = ''42''\<rparr>"

definition example_app :: app where
  "example_app =
     \<lparr>app_store = example_store,
      app_session = \<lparr>authenticated = True, isAdmin = False, savedTransition = None\<rparr>,
      app_events = [],
      app_redirected = False\<rparr>"

text \<open>A user representation as the server returns it after a lock of three days.\<close>

definition example_response :: user_resource where
  "example_response =
     \<lparr>res_id = ''42'',
      res_attrs = [(''login'', JStr ''ghost''),
                   (''lock'', JObj [(''reason'', JStr ''spam''),
                                    (''until'', JStr ''2023-11-17T22:13:20.000Z'')])]\<rparr>"

text \<open>
  Services that do not throw; a store that throws on every representation it is given;
  a server that answers every request with the representation above, and one that
  answers every request with the status 500.
\<close>

definition example_no_faults :: task_faults where
  "example_no_faults = \<lparr>notify_throws = None, push_throws = (\<lambda>r. None)\<rparr>"

definition example_push_fault :: task_faults where
  "example_push_fault =
     \<lparr>notify_throws = None, push_throws = (\<lambda>r. Some (OtherError ''TypeError''))\<rparr>"

definition example_ajax :: "request \<Rightarrow> js_error + user_resource" where
  "example_ajax r = Inr example_response"

definition example_ajax_500 :: "request \<Rightarrow> js_error + user_resource" where
  "example_ajax_500 r = Inl (HttpError (Some 500))"

section \<open>Lock state of a user\<close>

lemmas example_defs =
  example_store_def example_lock_def example_controller_def example_toDate_def
  lockReason_def lockedUntil_def get_attr_def

text \<open>
  C1. For every fetched user, \<open>isCurrentlyLocked\<close> is false when the lock record has
  no reason; true when a reason is present and the lock has no \<open>until\<close>; and, when
  both are present, true iff the \<open>until\<close> timestamp is strictly after the current time.
  A value is present when it is truthy, as the getter tests it (\<open>undefined\<close>,
  \<open>null\<close> and the empty string are absent), and the timestamp of \<open>until\<close> is the
  date that the date library reads from it. The last conjunct is the same in one
  formula: locked iff a reason is present and there is no expiry or the expiry is
  strictly after now.
\<close>

theorem isCurrentlyLocked_cases:
  "(\<not> truthy (lockReason st c) \<longrightarrow> \<not> isCurrentlyLocked toDate now st c)
   \<and> (truthy (lockReason st c) \<and> \<not> truthy (lockedUntil st c) \<longrightarrow>
        isCurrentlyLocked toDate now st c)
   \<and> (truthy (lockReason st c) \<and> truthy (lockedUntil st c) \<longrightarrow>
        isCurrentlyLocked toDate now st c =
          (\<exists>t. toDate (lockedUntil st c) = DateMs t \<and> now < t))
   \<and> isCurrentlyLocked toDate now st c =
        (truthy (lockReason st c) \<and>
         (\<not> truthy (lockedUntil st c) \<or>
          (\<exists>t. toDate (lockedUntil st c) = DateMs t \<and> now < t)))"
  by (auto simp: isCurrentlyLocked_def isFuture_def Let_def split: jsdate.splits)

text \<open>
  The example user has a reason and an expiry at 1893456000000: it is locked at
  1700000000000 and no longer locked at the expiry itself.
\<close>

theorem isCurrentlyLocked_cases_witness:
  "truthy (lockReason example_store example_controller)
   \<and> truthy (lockedUntil example_store example_controller)
   \<and> example_toDate (lockedUntil example_store example_controller) = DateMs 1893456000000
   \<and> isCurrentlyLocked example_toDate 1700000000000 example_store example_controller
   \<and> \<not> isCurrentlyLocked example_toDate 1893456000000 example_store example_controller"
  using isCurrentlyLocked_cases [of example_store example_controller example_toDate 1700000000000]
    isCurrentlyLocked_cases [of example_store example_controller example_toDate 1893456000000]
  by (simp add: example_defs)

text \<open>
  C5. For every fetched user, \<open>wasPreviouslyLocked\<close> is true iff the lock record has a
  reason and \<open>isCurrentlyLocked\<close> is false; hence for no user and no time are both
  true. The getter returns the value of \<open>lockReason && !isCurrentlyLocked\<close>, so
  "true" is stated both for the value \<open>true\<close> itself and for its truthiness.
\<close>

theorem wasPreviouslyLocked_iff:
  "(wasPreviouslyLocked toDate now st c = JBool True) =
     (truthy (lockReason st c) \<and> \<not> isCurrentlyLocked toDate now st c)
   \<and> truthy (wasPreviouslyLocked toDate now st c) =
     (truthy (lockReason st c) \<and> \<not> isCurrentlyLocked toDate now st c)
   \<and> \<not> (isCurrentlyLocked toDate now st c \<and> truthy (wasPreviouslyLocked toDate now st c))"
  by (cases "lockReason st c") (auto simp: wasPreviouslyLocked_def Let_def)

section \<open>The payload of a lock request\<close>

text \<open>
  The conversion reads a decimal numeral as the number it denotes: the digits are
  neither white space, nor a sign, a dot or an exponent indicator, so the whole text is
  the integer part of a decimal literal.
\<close>

lemma of_char_digit: "d < 10 \<Longrightarrow> (of_char (char_of (48 + d :: nat)) :: nat) = 48 + d"
  by simp

lemma digitOf_digit: "d < 10 \<Longrightarrow> digitOf 10 (char_of (48 + d)) = Some d"
  by (simp add: digitOf_def Let_def)

lemma digitsValue_snoc:
  "digitsValue r acc (xs @ [c]) =
     (case digitsValue r acc xs of
        None \<Rightarrow> None
      | Some v \<Rightarrow> (case digitOf r c of None \<Rightarrow> None | Some d \<Rightarrow> Some (v * r + d)))"
  by (induction xs arbitrary: acc) (auto split: option.splits)

lemma digitsValue_decimal: "digitsValue 10 0 (decimal n) = Some n"
proof (induction n rule: decimal.induct)
  case (1 n)
  show ?case
  proof (cases "n < 10")
    case True
    then show ?thesis
      by (subst decimal.simps) (simp add: digitOf_digit)
  next
    case False
    have d: "digitOf 10 (char_of (48 + n mod 10)) = Some (n mod 10)"
      by (rule digitOf_digit) simp
    from False 1 have ih: "digitsValue 10 0 (decimal (n div 10)) = Some (n div 10)"
      by simp
    show ?thesis
      using False by (subst decimal.simps) (simp add: digitsValue_snoc ih d)
  qed
qed

lemma decimal_not_Nil: "decimal n \<noteq> []"
  by (subst decimal.simps) simp

lemma decimal_chars:
  "c \<in> set (decimal n) \<Longrightarrow> 48 \<le> (of_char c :: nat) \<and> (of_char c :: nat) \<le> 57"
proof (induction n rule: decimal.induct)
  case (1 n)
  show ?case
  proof (cases "n < 10")
    case True
    with 1(2) have "c = char_of (48 + n)"
      by (subst (asm) decimal.simps) simp
    with True show ?thesis by simp
  next
    case False
    with 1(2) have "c \<in> set (decimal (n div 10)) \<or> c = char_of (48 + n mod 10)"
      by (subst (asm) decimal.simps) auto
    then show ?thesis
    proof
      assume "c \<in> set (decimal (n div 10))"
      with False 1(1) show ?thesis by simp
    next
      assume c: "c = char_of (48 + n mod 10)"
      have "n mod 10 < 10" by simp
      then have "(of_char (char_of (48 + n mod 10 :: nat)) :: nat) = 48 + n mod 10"
        by (rule of_char_digit)
      with c show ?thesis by simp
    qed
  qed
qed

lemma StringToNumber_digits:
  assumes ne: "ds \<noteq> []"
    and dig: "\<And>c. c \<in> set ds \<Longrightarrow> 48 \<le> (of_char c :: nat) \<and> (of_char c :: nat) \<le> 57"
    and val: "digitsValue 10 0 ds = Some v"
  shows "StringToNumber ds = Finite (of_nat v)"
proof -
  have nows: "\<not> isStrWhiteSpaceChar c" if "c \<in> set ds" for c
    using dig [OF that] by (auto simp: isStrWhiteSpaceChar_def)
  have noexp: "\<not> isExponentIndicator c" if "c \<in> set ds" for c
    using dig [OF that] by (auto simp: isExponentIndicator_def)
  have nodot: "c \<noteq> CHR ''.''" if "c \<in> set ds" for c
    using dig [OF that] by auto
  from ne obtain h t where ds: "ds = h # t" by (cases ds) auto
  have h: "48 \<le> (of_char h :: nat) \<and> (of_char h :: nat) \<le> 57"
    using dig [of h] ds by simp
  have "dropWhile isStrWhiteSpaceChar ds = ds"
    using nows [of h] ds by simp
  moreover have "dropWhile isStrWhiteSpaceChar (rev ds) = rev ds"
    using nows [of "last ds"] ne by (simp add: dropWhile_eq_self_iff hd_rev)
  ultimately have trim: "trimString ds = ds"
    by (simp add: trimString_def)
  have nondec: "NonDecimalIntegerLiteral ds = None"
  proof (cases t)
    case Nil
    with ds show ?thesis by (simp add: NonDecimalIntegerLiteral_def)
  next
    case (Cons x r)
    have "48 \<le> (of_char x :: nat) \<and> (of_char x :: nat) \<le> 57"
      using dig [of x] ds Cons by simp
    then have "x \<noteq> CHR ''x'' \<and> x \<noteq> CHR ''X'' \<and> x \<noteq> CHR ''o'' \<and> x \<noteq> CHR ''O''
        \<and> x \<noteq> CHR ''b'' \<and> x \<noteq> CHR ''B''"
      by auto
    with ds Cons show ?thesis by (simp add: NonDecimalIntegerLiteral_def)
  qed
  have sign: "h \<noteq> CHR ''+'' \<and> h \<noteq> CHR ''-'' \<and> h \<noteq> CHR ''I''"
    using h by auto
  have inf: "ds \<noteq> ''Infinity''"
    using sign ds by auto
  have tw: "takeWhile (\<lambda>c. \<not> isExponentIndicator c) ds = ds"
    using noexp by (simp add: takeWhile_eq_all_conv)
  have dw: "dropWhile (\<lambda>c. \<not> isExponentIndicator c) ds = []"
    using noexp by simp
  have tw2: "takeWhile (\<lambda>c. c \<noteq> CHR ''.'') ds = ds"
    using nodot by (simp add: takeWhile_eq_all_conv)
  have dw2: "dropWhile (\<lambda>c. c \<noteq> CHR ''.'') ds = []"
    using nodot by simp
  have mant: "parseMantissa ds = Some (of_nat v)"
    using ne val by (simp add: parseMantissa_def tw2 dw2 parseDigits_def)
  have unsigned: "StrUnsignedDecimalLiteral ds = Finite (of_nat v)"
    using inf by (simp add: StrUnsignedDecimalLiteral_def tw dw mant scale10_def)
  have "StrDecimalLiteral ds = StrUnsignedDecimalLiteral ds"
    using sign ds by (simp add: StrDecimalLiteral_def)
  with unsigned nondec trim ne show ?thesis
    by (simp add: StringToNumber_def)
qed

lemma StringToNumber_decimal: "StringToNumber (decimal n) = Finite (of_nat n)"
  by (rule StringToNumber_digits [OF decimal_not_Nil decimal_chars digitsValue_decimal])

text \<open>
  C3. For every days/reason state of the controller, \<open>asPayload()\<close> returns the reason
  unchanged; its \<open>until\<close> is the current time plus the converted number of days
  (\<open>addDays\<close> of the current date and that number) when the days text converts to a
  number that is not \<open>NaN\<close>, and \<open>null\<close> otherwise. With the decimal numeral of
  any natural number \<open>n\<close> as days it is now plus \<open>n\<close> days (with \<open>"7"\<close>, now plus 7
  days); with days \<open>"abc"\<close> it is \<open>null\<close>. What the sum is for a number of days
  that is fractional, negative or infinite is the library's to say.
\<close>

theorem asPayload_until:
  "payload_reason (asPayload addDays now c) = reason c
   \<and> payload_until (asPayload addDays now c) =
       (if isNaN (StringToNumber (days c)) then None
        else Some (addDays now (StringToNumber (days c))))
   \<and> asPayload addDays now (c\<lparr>days := decimal n\<rparr>) =
       \<lparr>payload_reason = reason c, payload_until = Some (addDays now (Finite (of_nat n)))\<rparr>
   \<and> asPayload addDays now (c\<lparr>days := ''7''\<rparr>) =
       \<lparr>payload_reason = reason c, payload_until = Some (addDays now (Finite 7))\<rparr>
   \<and> asPayload addDays now (c\<lparr>days := ''abc''\<rparr>) =
       \<lparr>payload_reason = reason c, payload_until = None\<rparr>"
proof -
  have seven: "StringToNumber ''7'' = Finite 7" by code_simp
  have abc: "StringToNumber ''abc'' = NaN" by code_simp
  show ?thesis
    by (simp add: asPayload_def Let_def seven abc StringToNumber_decimal isNaN_def)
qed

lemma trimString_blank:
  assumes "list_all isStrWhiteSpaceChar s"
  shows "trimString s = []"
proof -
  from assms have d: "dropWhile isStrWhiteSpaceChar s = []"
    by (simp add: list_all_iff)
  show ?thesis unfolding trimString_def d by simp
qed

text \<open>
  C9. When the days field is the empty string or consists of white space only, the
  conversion does not yield \<open>NaN\<close> but the number 0, so \<open>until\<close> is not \<open>null\<close>: it
  is now plus 0 days. Where adding 0 days leaves the date as it is, that is the current
  time itself, a timestamp that is not in the future.
\<close>

theorem asPayload_blank_days:
  assumes "list_all isStrWhiteSpaceChar (days c)"
  shows "StringToNumber (days c) = Finite 0
    \<and> \<not> isNaN (StringToNumber (days c))
    \<and> payload_until (asPayload addDays now c) = Some (addDays now (Finite 0))
    \<and> payload_until (asPayload addDays now c) \<noteq> None
    \<and> (addDays now (Finite 0) = DateMs now \<longrightarrow>
         payload_until (asPayload addDays now c) = Some (DateMs now))"
proof -
  have z: "StringToNumber (days c) = Finite 0"
    using trimString_blank [OF assms] by (simp add: StringToNumber_def)
  show ?thesis
    by (simp add: z asPayload_def Let_def isNaN_def)
qed

theorem asPayload_blank_days_witness:
  "list_all isStrWhiteSpaceChar (days (example_controller\<lparr>days := ''''\<rparr>))
   \<and> list_all isStrWhiteSpaceChar (days (example_controller\<lparr>days := ''   ''\<rparr>))
   \<and> example_addDays 1700000000000 (Finite 0) = DateMs 1700000000000
   \<and> payload_until (asPayload example_addDays 1700000000000 (example_controller\<lparr>days := ''''\<rparr>))
       = Some (DateMs 1700000000000)
   \<and> payload_until (asPayload example_addDays 1700000000000 (example_controller\<lparr>days := ''   ''\<rparr>))
       = Some (DateMs 1700000000000)"
  using asPayload_blank_days [of "example_controller\<lparr>days := ''''\<rparr>" example_addDays 1700000000000]
    asPayload_blank_days [of "example_controller\<lparr>days := ''   ''\<rparr>" example_addDays 1700000000000]
  by (simp add: example_addDays_def isStrWhiteSpaceChar_def)

section \<open>Lock and unlock actions\<close>

text \<open>What a push into the store does to the attributes of the records.\<close>

lemma store_push_carried:
  "map_of (res_attrs r) k = Some v \<Longrightarrow> get_attr (store_push r st) (res_id r) k = v"
  by (simp add: store_push_def get_attr_def map_add_def split: option.splits)

lemma store_push_kept:
  "map_of (res_attrs r) k = None \<Longrightarrow>
     get_attr (store_push r st) (res_id r) k = get_attr st (res_id r) k"
  by (simp add: store_push_def get_attr_def map_add_def split: option.splits)

lemma store_push_other:
  "i \<noteq> res_id r \<Longrightarrow> store_push r st i = st i"
  by (simp add: store_push_def)

text \<open>
  C6. For every successful lock action (the awaited request resolves with a user
  representation, and neither the success notification nor the push into the store
  throws), the controller sends the payload of \<open>asPayload()\<close> to the lock
  endpoint of the user with the verb PUT, then shows the success notification, resets
  the days field to \<open>"7"\<close> and the reason field to the default contact message, and
  merges the returned representation into the store: the attributes it carries are the
  cached ones afterwards, the record's other attributes and the other records are as
  before. The task completes without an error.
\<close>

theorem lockTask_success:
  assumes "ajax (lock_request addDays now (app_store a) c) = Inr user"
    and "notify_throws faults = None"
    and "push_throws faults user = None"
  shows "lockTask faults ajax addDays now c a =
      (Inr JUndefined,
       c\<lparr>days := ''7'', reason := ''Please contact help@crates.io.''\<rparr>,
       a\<lparr>app_events := app_events a @
            [Fetch (lock_request addDays now (app_store a) c),
             NotifySuccess ''User account locked''],
         app_store := store_push user (app_store a)\<rparr>)
    \<and> lock_request addDays now (app_store a) c =
        \<lparr>req_url = ''/api/v1/users/'' @ js_toString (get_attr (app_store a) (model_user c) ''login'')
                    @ ''/lock'',
         req_verb = PUT,
         req_body = Some (JSON_stringify (asPayload addDays now c)),
         req_headers = [(''Content-Type'', ''application/json'')]\<rparr>
    \<and> (\<forall>k v. map_of (res_attrs user) k = Some v \<longrightarrow>
          get_attr (store_push user (app_store a)) (res_id user) k = v)
    \<and> (\<forall>k. map_of (res_attrs user) k = None \<longrightarrow>
          get_attr (store_push user (app_store a)) (res_id user) k =
            get_attr (app_store a) (res_id user) k)
    \<and> (\<forall>i. i \<noteq> res_id user \<longrightarrow> store_push user (app_store a) i = app_store a i)"
proof -
  have run: "lockTask faults ajax addDays now c a =
      (Inr JUndefined,
       c\<lparr>days := ''7'', reason := ''Please contact help@crates.io.''\<rparr>,
       a\<lparr>app_events := app_events a @
            [Fetch (lock_request addDays now (app_store a) c),
             NotifySuccess ''User account locked''],
         app_store := store_push user (app_store a)\<rparr>)"
    using assms by (simp add: lockTask_def Let_def emit_def push_user_def reset_def)
  have req: "lock_request addDays now (app_store a) c =
        \<lparr>req_url = ''/api/v1/users/'' @ js_toString (get_attr (app_store a) (model_user c) ''login'')
                    @ ''/lock'',
         req_verb = PUT,
         req_body = Some (JSON_stringify (asPayload addDays now c)),
         req_headers = [(''Content-Type'', ''application/json'')]\<rparr>"
    by (simp add: lock_request_def lock_url_def)
  show ?thesis
    using run req store_push_carried store_push_kept store_push_other by blast
qed

text \<open>
  With days \<open>"3"\<close> and reason \<open>"spam"\<close> at time 1700000000000, the body is the
  reason \<open>"spam"\<close> and the date three days later, and the store holds the lock that
  the server returned.
\<close>

theorem lockTask_success_witness:
  "lockTask example_no_faults
     (\<lambda>r. if req_verb r = PUT then Inr example_response else Inl (HttpError (Some 500)))
     example_addDays 1700000000000 example_controller example_app =
   (Inr JUndefined,
    \<lparr>days = ''7'', reason = ''Please contact help@crates.io.'', model_user = ''42''\<rparr>,
    example_app
      \<lparr>app_events :=
         [Fetch \<lparr>req_url = ''/api/v1/users/ghost/lock'',
                 req_verb = PUT,
                 req_body = Some (JSON_stringify
                   \<lparr>payload_reason = ''spam'', payload_until = Some (DateMs 1700259200000)\<rparr>),
                 req_headers = [(''Content-Type'', ''application/json'')]\<rparr>,
          NotifySuccess ''User account locked''],
       app_store := store_push example_response example_store\<rparr>)
   \<and> get_attr (store_push example_response example_store) ''42'' ''lock'' =
       JObj [(''reason'', JStr ''spam''), (''until'', JStr ''2023-11-17T22:13:20.000Z'')]
   \<and> get_attr (store_push example_response example_store) ''42'' ''email'' =
       JStr ''ghost@example.com''"
proof -
  have three: "StringToNumber ''3'' = Finite 3" by code_simp
  show ?thesis
    using lockTask_success [of "\<lambda>r. if req_verb r = PUT then Inr example_response else Inl (HttpError (Some 500))"
        example_addDays 1700000000000 example_app example_controller example_response
        example_no_faults]
    by (simp add: lock_request_def lock_url_def asPayload_def Let_def three isNaN_def
        example_addDays_def example_app_def example_store_def example_controller_def
        example_response_def example_no_faults_def get_attr_def store_push_def)
qed

text \<open>
  C10 says that every failing lock or unlock action leaves the days and reason fields
  as they were. It does not hold for an action that fails after \<open>reset()\<close>: here the
  request resolves and the push into the store throws. The success notification has
  been shown, the fields have gone from \<open>"3"\<close> and \<open>"spam"\<close> to their defaults,
  and then the failure path runs.
\<close>

theorem lockTask_push_failure_resets:
  "lockTask example_push_fault example_ajax example_addDays 1700000000000
     example_controller example_app =
   (Inr JUndefined,
    \<lparr>days = ''7'', reason = ''Please contact help@crates.io.'', model_user = ''42''\<rparr>,
    example_app
      \<lparr>app_events :=
         [Fetch \<lparr>req_url = ''/api/v1/users/ghost/lock'',
                 req_verb = PUT,
                 req_body = Some (JSON_stringify
                   \<lparr>payload_reason = ''spam'', payload_until = Some (DateMs 1700259200000)\<rparr>),
                 req_headers = [(''Content-Type'', ''application/json'')]\<rparr>,
          NotifySuccess ''User account locked'',
          NotifyError ''An error occurred while locking the account.'',
          CaptureException (OtherError ''TypeError''),
          ConsoleError (OtherError ''TypeError'')]\<rparr>)
   \<and> days example_controller = ''3''
   \<and> reason example_controller = ''spam''
   \<and> fst (snd (lockTask example_push_fault example_ajax example_addDays 1700000000000
         example_controller example_app)) \<noteq> example_controller"
proof -
  have three: "StringToNumber ''3'' = Finite 3" by code_simp
  show ?thesis
    by (simp add: lockTask_def task_catch_def lock_request_def lock_url_def asPayload_def
        Let_def three isNaN_def emit_def reset_def example_addDays_def example_app_def
        example_store_def example_controller_def example_ajax_def example_push_fault_def
        get_attr_def)
qed

text \<open>
  C10, amended. For every lock or unlock action that fails before \<open>reset()\<close> is
  reached (the awaited request is rejected, or the success notification throws), the
  days and reason fields keep their values and nothing is pushed into the store. For
  every action that fails after it (the push into the store throws), the success
  notification has been shown and the fields have been reset to their defaults; nothing
  is merged into the store. In every case the failure path shows the error notification,
  reports the error to Sentry and logs it to the console, in this order, and the task
  completes without re-throwing.
\<close>

theorem lock_unlock_failure:
  "(ajax (lock_request addDays now (app_store a) c) = Inl e \<longrightarrow>
      lockTask faults ajax addDays now c a =
        (Inr JUndefined, c,
         a\<lparr>app_events := app_events a @
              [Fetch (lock_request addDays now (app_store a) c),
               NotifyError ''An error occurred while locking the account.'',
               CaptureException e,
               ConsoleError e]\<rparr>))
   \<and> (ajax (unlock_request (app_store a) c) = Inl e \<longrightarrow>
      unlockTask faults ajax c a =
        (Inr JUndefined, c,
         a\<lparr>app_events := app_events a @
              [Fetch (unlock_request (app_store a) c),
               NotifyError ''An error occurred while unlocking the account.'',
               CaptureException e,
               ConsoleError e]\<rparr>))
   \<and> (ajax (lock_request addDays now (app_store a) c) = Inr user
       \<and> notify_throws faults = Some e \<longrightarrow>
      lockTask faults ajax addDays now c a =
        (Inr JUndefined, c,
         a\<lparr>app_events := app_events a @
              [Fetch (lock_request addDays now (app_store a) c),
               NotifyError ''An error occurred while locking the account.'',
               CaptureException e,
               ConsoleError e]\<rparr>))
   \<and> (ajax (unlock_request (app_store a) c) = Inr user
       \<and> notify_throws faults = Some e \<longrightarrow>
      unlockTask faults ajax c a =
        (Inr JUndefined, c,
         a\<lparr>app_events := app_events a @
              [Fetch (unlock_request (app_store a) c),
               NotifyError ''An error occurred while unlocking the account.'',
               CaptureException e,
               ConsoleError e]\<rparr>))
   \<and> (ajax (lock_request addDays now (app_store a) c) = Inr user
       \<and> notify_throws faults = None \<and> push_throws faults user = Some e \<longrightarrow>
      lockTask faults ajax addDays now c a =
        (Inr JUndefined,
         c\<lparr>days := ''7'', reason := ''Please contact help@crates.io.''\<rparr>,
         a\<lparr>app_events := app_events a @
              [Fetch (lock_request addDays now (app_store a) c),
               NotifySuccess ''User account locked'',
               NotifyError ''An error occurred while locking the account.'',
               CaptureException e,
               ConsoleError e]\<rparr>))
   \<and> (ajax (unlock_request (app_store a) c) = Inr user
       \<and> notify_throws faults = None \<and> push_throws faults user = Some e \<longrightarrow>
      unlockTask faults ajax c a =
        (Inr JUndefined,
         c\<lparr>days := ''7'', reason := ''Please contact help@crates.io.''\<rparr>,
         a\<lparr>app_events := app_events a @
              [Fetch (unlock_request (app_store a) c),
               NotifySuccess ''User account unlocked'',
               NotifyError ''An error occurred while unlocking the account.'',
               CaptureException e,
               ConsoleError e]\<rparr>))"
  by (simp add: lockTask_def unlockTask_def task_catch_def Let_def emit_def reset_def)

text \<open>
  Both actions on the example user: the server answering 500, and the server answering
  with the user while the store throws on the push.
\<close>

theorem lock_unlock_failure_witness:
  "(case lockTask example_no_faults example_ajax_500 example_addDays 1700000000000
           example_controller example_app of
      (r, c, a) \<Rightarrow>
        r = Inr JUndefined \<and> c = example_controller \<and> app_store a = example_store
        \<and> app_events a =
            [Fetch (lock_request example_addDays 1700000000000 example_store example_controller),
             NotifyError ''An error occurred while locking the account.'',
             CaptureException (HttpError (Some 500)),
             ConsoleError (HttpError (Some 500))])
   \<and> (case unlockTask example_no_faults example_ajax_500 example_controller example_app of
      (r, c, a) \<Rightarrow>
        r = Inr JUndefined \<and> c = example_controller \<and> app_store a = example_store
        \<and> app_events a =
            [Fetch \<lparr>req_url = ''/api/v1/users/ghost/lock'', req_verb = DELETE,
                    req_body = None, req_headers = []\<rparr>,
             NotifyError ''An error occurred while unlocking the account.'',
             CaptureException (HttpError (Some 500)),
             ConsoleError (HttpError (Some 500))])
   \<and> (case unlockTask example_push_fault example_ajax example_controller example_app of
      (r, c, a) \<Rightarrow>
        r = Inr JUndefined
        \<and> c = \<lparr>days = ''7'', reason = ''Please contact help@crates.io.'', model_user = ''42''\<rparr>
        \<and> app_store a = example_store
        \<and> app_events a =
            [Fetch \<lparr>req_url = ''/api/v1/users/ghost/lock'', req_verb = DELETE,
                    req_body = None, req_headers = []\<rparr>,
             NotifySuccess ''User account unlocked'',
             NotifyError ''An error occurred while unlocking the account.'',
             CaptureException (OtherError ''TypeError''),
             ConsoleError (OtherError ''TypeError'')])"
  using lock_unlock_failure [of example_ajax_500 example_addDays 1700000000000
      example_app example_controller "HttpError (Some 500)" example_no_faults]
    lock_unlock_failure [of example_ajax example_addDays 1700000000000
      example_app example_controller "OtherError ''TypeError''" example_push_fault example_response]
  by (simp add: example_app_def unlock_request_def lock_url_def get_attr_def example_store_def
      example_controller_def example_ajax_def example_ajax_500_def example_push_fault_def
      example_no_faults_def)

section \<open>Failures of the routes\<close>

text \<open>
  C4. For every failing fetch of the admin view of the user \<open>uid\<close>: if the failure is
  an \<open>HttpError\<close> with status 404, the route redirects to \<open>catch-all\<close> with the
  title \<open>"<uid>: User not found"\<close> and no \<open>tryAgain\<close>; for any other failure it
  redirects with the title \<open>"<uid>: Failed to load user data"\<close> and \<open>tryAgain\<close>
  true. In both cases the hook resolves (with nothing): the error is passed to the
  redirect and is not thrown to the caller.
\<close>

theorem AdminUserRoute_model_failure:
  assumes "map_of params ''user_id'' = Some (JStr uid)"
    and "ajax (admin_user_request (JStr uid)) = Inl e"
  shows "(e = HttpError (Some 404) \<longrightarrow>
      AdminUserRoute_model ajax params transition a =
        (Inr NoModel,
         a\<lparr>app_events := app_events a @
              [Fetch (admin_user_request (JStr uid)),
               ReplaceWith ''catch-all''
                 \<lparr>ca_transition = transition, ca_error = Some e,
                  ca_title = uid @ '': User not found'',
                  ca_tryAgain = None, ca_loginNeeded = None\<rparr>],
            app_redirected := True\<rparr>))
    \<and> (e \<noteq> HttpError (Some 404) \<longrightarrow>
      AdminUserRoute_model ajax params transition a =
        (Inr NoModel,
         a\<lparr>app_events := app_events a @
              [Fetch (admin_user_request (JStr uid)),
               ReplaceWith ''catch-all''
                 \<lparr>ca_transition = transition, ca_error = Some e,
                  ca_title = uid @ '': Failed to load user data'',
                  ca_tryAgain = Some True, ca_loginNeeded = None\<rparr>],
            app_redirected := True\<rparr>))
    \<and> fst (AdminUserRoute_model ajax params transition a) = Inr NoModel
    \<and> (\<forall>thrown. fst (AdminUserRoute_model ajax params transition a) \<noteq> Inl thrown)
    \<and> admin_user_request (JStr uid) =
        \<lparr>req_url = ''/api/v1/users/'' @ uid @ ''/admin'', req_verb = GET,
         req_body = None, req_headers = []\<rparr>"
  using assms
  by (simp add: AdminUserRoute_model_def param_def Let_def emit_def replaceWith_def
      admin_user_request_def)

text \<open>The user \<open>ghost\<close>, with a 404 and with a 500.\<close>

theorem AdminUserRoute_model_failure_witness:
  "AdminUserRoute_model (\<lambda>r. Inl (HttpError (Some 404))) [(''user_id'', JStr ''ghost'')]
      (Transition ''admin.user'') example_app =
     (Inr NoModel,
      example_app
        \<lparr>app_events :=
           [Fetch \<lparr>req_url = ''/api/v1/users/ghost/admin'', req_verb = GET,
                   req_body = None, req_headers = []\<rparr>,
            ReplaceWith ''catch-all''
              \<lparr>ca_transition = Transition ''admin.user'',
               ca_error = Some (HttpError (Some 404)),
               ca_title = ''ghost: User not found'',
               ca_tryAgain = None, ca_loginNeeded = None\<rparr>],
         app_redirected := True\<rparr>)
   \<and> AdminUserRoute_model (\<lambda>r. Inl (HttpError (Some 500))) [(''user_id'', JStr ''ghost'')]
      (Transition ''admin.user'') example_app =
     (Inr NoModel,
      example_app
        \<lparr>app_events :=
           [Fetch \<lparr>req_url = ''/api/v1/users/ghost/admin'', req_verb = GET,
                   req_body = None, req_headers = []\<rparr>,
            ReplaceWith ''catch-all''
              \<lparr>ca_transition = Transition ''admin.user'',
               ca_error = Some (HttpError (Some 500)),
               ca_title = ''ghost: Failed to load user data'',
               ca_tryAgain = Some True, ca_loginNeeded = None\<rparr>],
         app_redirected := True\<rparr>)"
  using AdminUserRoute_model_failure [of "[(''user_id'', JStr ''ghost'')]" "''ghost''"
      "\<lambda>r. Inl (HttpError (Some 404))" "HttpError (Some 404)" "Transition ''admin.user''" example_app]
    AdminUserRoute_model_failure [of "[(''user_id'', JStr ''ghost'')]" "''ghost''"
      "\<lambda>r. Inl (HttpError (Some 500))" "HttpError (Some 500)" "Transition ''admin.user''" example_app]
  by (simp add: admin_user_request_def example_app_def)

text \<open>
  C2. The claim is that a failure of the crates listing is handled as the user route
  handles its own: a redirect to \<open>catch-all\<close> with a title that starts with the
  user's identifier. The code does not do that. Where the global object has no
  \<open>user_id\<close> (the application defines none), for every error \<open>e\<close> that the query
  fails with, \<open>NotFoundError\<close> included, the hook is rejected with
  \<open>ReferenceError\<close> for \<open>user_id\<close>, and the only event is the query itself:
  there is no redirect.
\<close>

theorem AdminUserCratesRoute_model_failure:
  assumes "query (crates_query params user) = Inl e"
    and "globals ''user_id'' = None"
  shows "AdminUserCratesRoute_model globals query params transition user a =
     (Inl (ReferenceError ''user_id''),
      a\<lparr>app_events := app_events a @ [StoreQuery ''crate'' (crates_query params user)]\<rparr>)"
  using assms
  by (simp add: AdminUserCratesRoute_model_def global_identifier_def Let_def emit_def)

text \<open>
  The listing of the user 42 fails with \<open>NotFoundError\<close>, and with a server error: no
  redirect either time.
\<close>

theorem AdminUserCratesRoute_model_failure_witness:
  "AdminUserCratesRoute_model Map.empty (\<lambda>q. Inl NotFoundError) [(''page'', JStr ''1'')]
        (Transition ''admin.user.crates'') ''42'' example_app =
     (Inl (ReferenceError ''user_id''),
      example_app
        \<lparr>app_events :=
           [StoreQuery ''crate''
              [(''page'', JStr ''1''), (''user_id'', JStr ''42''),
               (''include_yanked'', JStr ''yes'')]]\<rparr>)
   \<and> AdminUserCratesRoute_model Map.empty (\<lambda>q. Inl (OtherError ''500'')) [(''page'', JStr ''1'')]
        (Transition ''admin.user.crates'') ''42'' example_app =
     (Inl (ReferenceError ''user_id''),
      example_app
        \<lparr>app_events :=
           [StoreQuery ''crate''
              [(''page'', JStr ''1''), (''user_id'', JStr ''42''),
               (''include_yanked'', JStr ''yes'')]]\<rparr>)"
  using AdminUserCratesRoute_model_failure [of "\<lambda>q. Inl NotFoundError" "[(''page'', JStr ''1'')]"
      "''42''" NotFoundError Map.empty "Transition ''admin.user.crates''" example_app]
    AdminUserCratesRoute_model_failure [of "\<lambda>q. Inl (OtherError ''500'')" "[(''page'', JStr ''1'')]"
      "''42''" "OtherError ''500''" Map.empty "Transition ''admin.user.crates''" example_app]
  by (simp add: crates_query_def example_app_def)

section \<open>The admin guard\<close>

text \<open>
  C7. For every navigation of an authenticated session that is not an admin into an
  admin-scoped route, the guard stores the transition in the session and redirects to
  \<open>catch-all\<close> with the transition, \<open>loginNeeded\<close> true and the fixed title. That
  is all the navigation does: the route's own hook, which would fetch the admin data,
  is not run, so no fetch comes before the redirect (or after it).
\<close>

theorem AdminRoute_beforeModel_non_admin:
  assumes "authenticated (app_session a)" and "\<not> isAdmin (app_session a)"
  shows "AdminRoute_beforeModel transition a =
      a\<lparr>app_session := (app_session a)\<lparr>savedTransition := Some transition\<rparr>,
        app_events := app_events a @
          [ReplaceWith ''catch-all''
             \<lparr>ca_transition = transition, ca_error = None,
              ca_title = ''This page requires authentication'',
              ca_tryAgain = None, ca_loginNeeded = Some True\<rparr>],
        app_redirected := True\<rparr>
    \<and> enter_admin_route transition hook a =
      (None,
       a\<lparr>app_session := (app_session a)\<lparr>savedTransition := Some transition\<rparr>,
         app_events := app_events a @
           [ReplaceWith ''catch-all''
              \<lparr>ca_transition = transition, ca_error = None,
               ca_title = ''This page requires authentication'',
               ca_tryAgain = None, ca_loginNeeded = Some True\<rparr>],
         app_redirected := True\<rparr>)"
  using assms
  by (simp add: AdminRoute_beforeModel_def AuthenticatedRoute_beforeModel_def
      enter_admin_route_def Let_def replaceWith_def emit_def)

text \<open>The example session enters the user route: one redirect, no fetch.\<close>

theorem AdminRoute_beforeModel_non_admin_witness:
  "authenticated (app_session example_app) \<and> \<not> isAdmin (app_session example_app)
   \<and> enter_admin_route (Transition ''admin.user'')
       (AdminUserRoute_model (\<lambda>r. Inl (HttpError (Some 500))) [(''user_id'', JStr ''ghost'')]
          (Transition ''admin.user'')) example_app =
     (None,
      example_app
        \<lparr>app_session :=
           \<lparr>authenticated = True, isAdmin = False,
            savedTransition = Some (Transition ''admin.user'')\<rparr>,
         app_events :=
           [ReplaceWith ''catch-all''
              \<lparr>ca_transition = Transition ''admin.user'', ca_error = None,
               ca_title = ''This page requires authentication'',
               ca_tryAgain = None, ca_loginNeeded = Some True\<rparr>],
         app_redirected := True\<rparr>)"
  using AdminRoute_beforeModel_non_admin [of example_app "Transition ''admin.user''"
      "AdminUserRoute_model (\<lambda>r. Inl (HttpError (Some 500))) [(''user_id'', JStr ''ghost'')]
          (Transition ''admin.user'')"]
  by (simp add: example_app_def)

section \<open>Mutations of the user entity\<close>

text \<open>
  C8. For every successful remote mutation of the user entity, only the fields that the
  operation changes are patched in the store. \<open>changeEmail\<close> sets \<open>email\<close> to the
  new address, \<open>email_verified\<close> to false and \<open>email_verification_sent\<close> to true,
  and leaves every other attribute of the record, and every other record, as it was;
  \<open>updatePublishNotifications\<close> sets \<open>publish_notifications\<close> only;
  \<open>resendVerificationEmail\<close> patches nothing and returns the server's output.
\<close>

theorem user_mutations_patch:
  "(apiAction \<lparr>api_record = i, api_verb = PUT, api_path = None,
               api_data = Some (JObj [(''user'', JObj [(''email'', email)])])\<rparr> = Inr out \<longrightarrow>
      fst (changeEmail apiAction i email a) = Inr JUndefined
      \<and> get_attr (app_store (snd (changeEmail apiAction i email a))) i ''email'' = email
      \<and> get_attr (app_store (snd (changeEmail apiAction i email a))) i ''email_verified'' = JBool False
      \<and> get_attr (app_store (snd (changeEmail apiAction i email a))) i ''email_verification_sent'' = JBool True
      \<and> (\<forall>k. k \<noteq> ''email'' \<and> k \<noteq> ''email_verified'' \<and> k \<noteq> ''email_verification_sent'' \<longrightarrow>
            get_attr (app_store (snd (changeEmail apiAction i email a))) i k = get_attr (app_store a) i k)
      \<and> (\<forall>j. j \<noteq> i \<longrightarrow> app_store (snd (changeEmail apiAction i email a)) j = app_store a j))
   \<and> (apiAction \<lparr>api_record = i, api_verb = PUT, api_path = None,
               api_data = Some (JObj [(''user'', JObj [(''publish_notifications'', enabled)])])\<rparr>
        = Inr out \<longrightarrow>
      fst (updatePublishNotifications apiAction i enabled a) = Inr JUndefined
      \<and> get_attr (app_store (snd (updatePublishNotifications apiAction i enabled a))) i
            ''publish_notifications'' = enabled
      \<and> (\<forall>k. k \<noteq> ''publish_notifications'' \<longrightarrow>
            get_attr (app_store (snd (updatePublishNotifications apiAction i enabled a))) i k =
              get_attr (app_store a) i k)
      \<and> (\<forall>j. j \<noteq> i \<longrightarrow>
            app_store (snd (updatePublishNotifications apiAction i enabled a)) j = app_store a j))
   \<and> app_store (snd (resendVerificationEmail apiAction i a)) = app_store a
   \<and> fst (resendVerificationEmail apiAction i a) =
       apiAction \<lparr>api_record = i, api_verb = PUT, api_path = Some ''resend'', api_data = None\<rparr>"
proof -
  have email: "apiAction \<lparr>api_record = i, api_verb = PUT, api_path = None,
               api_data = Some (JObj [(''user'', JObj [(''email'', email)])])\<rparr> = Inr out \<Longrightarrow>
      fst (changeEmail apiAction i email a) = Inr JUndefined
      \<and> app_store (snd (changeEmail apiAction i email a)) =
          store_push \<lparr>res_id = i,
            res_attrs = [(''email'', email), (''email_verified'', JBool False),
                         (''email_verification_sent'', JBool True)]\<rparr> (app_store a)"
    by (simp add: changeEmail_def Let_def emit_def push_user_def)
  have notif: "apiAction \<lparr>api_record = i, api_verb = PUT, api_path = None,
               api_data = Some (JObj [(''user'', JObj [(''publish_notifications'', enabled)])])\<rparr>
        = Inr out \<Longrightarrow>
      fst (updatePublishNotifications apiAction i enabled a) = Inr JUndefined
      \<and> app_store (snd (updatePublishNotifications apiAction i enabled a)) =
          store_push \<lparr>res_id = i, res_attrs = [(''publish_notifications'', enabled)]\<rparr> (app_store a)"
    by (simp add: updatePublishNotifications_def Let_def emit_def push_user_def)
  have resend: "app_store (snd (resendVerificationEmail apiAction i a)) = app_store a
     \<and> fst (resendVerificationEmail apiAction i a) =
       apiAction \<lparr>api_record = i, api_verb = PUT, api_path = Some ''resend'', api_data = None\<rparr>"
    by (simp add: resendVerificationEmail_def Let_def emit_def)
  show ?thesis
    using email notif resend
    by (auto simp: store_push_def get_attr_def map_add_def split: option.splits)
qed

text \<open>
  The example user changes the address: the three fields are patched, the login and the
  lock are as before.
\<close>

theorem user_mutations_patch_witness:
  "fst (changeEmail (\<lambda>call. Inr JNull) ''42'' (JStr ''new@example.com'') example_app) = Inr JUndefined
   \<and> get_attr (app_store (snd (changeEmail (\<lambda>call. Inr JNull) ''42'' (JStr ''new@example.com'')
         example_app))) ''42'' ''email'' = JStr ''new@example.com''
   \<and> get_attr (app_store (snd (changeEmail (\<lambda>call. Inr JNull) ''42'' (JStr ''new@example.com'')
         example_app))) ''42'' ''email_verified'' = JBool False
   \<and> get_attr (app_store (snd (changeEmail (\<lambda>call. Inr JNull) ''42'' (JStr ''new@example.com'')
         example_app))) ''42'' ''login'' = JStr ''ghost''
   \<and> get_attr (app_store (snd (changeEmail (\<lambda>call. Inr JNull) ''42'' (JStr ''new@example.com'')
         example_app))) ''42'' ''lock'' = example_lock
   \<and> get_attr (app_store (snd (updatePublishNotifications (\<lambda>call. Inr JNull) ''42'' (JBool False)
         example_app))) ''42'' ''publish_notifications'' = JBool False
   \<and> get_attr (app_store (snd (updatePublishNotifications (\<lambda>call. Inr JNull) ''42'' (JBool False)
         example_app))) ''42'' ''email'' = JStr ''ghost@example.com''"
  using user_mutations_patch [of "\<lambda>call. Inr JNull" "''42''" "JStr ''new@example.com''" JNull
      example_app "JBool False"]
  by (simp add: example_app_def example_store_def get_attr_def)

end
